theory Spec2Isabelle
  imports Main "HOL-Library.Sublist"
begin

section \<open>JavaScript values, errors and strings\<close>

text \<open>
  The values that travel through the server: a decoded token payload, the subject it
  carries, request bodies. An object is the list of its own properties, each key once.
  Numbers are the integers that serve as identifiers.
\<close>

datatype jsvalue =
    JUndefined
  | JNull
  | JBool bool
  | JNum int
  | JStr string
  | JArr "jsvalue list"
  | JObj "(string \<times> jsvalue) list"

text \<open>
  What a \<^verbatim>\<open>throw\<close> carries: \<^verbatim>\<open>new Error(msg)\<close> of \<^verbatim>\<open>getUserId\<close>, the errors
  \<^verbatim>\<open>jwt.verify\<close> raises, the TypeError of destructuring \<^verbatim>\<open>null\<close> or \<^verbatim>\<open>undefined\<close>,
  and the GraphQLError a failed \<^verbatim>\<open>parse\<close> throws.
\<close>

datatype error =
    Error string
  | JsonWebTokenError string
  | TypeError string
  | SyntaxError string

text \<open>
  \<^verbatim>\<open>s.replace(pat, rep)\<close> with a string pattern: the first occurrence of \<^verbatim>\<open>pat\<close> in
  \<^verbatim>\<open>s\<close>, wherever it stands, is replaced by \<^verbatim>\<open>rep\<close>; a string without an occurrence
  is returned as it is. (The replacement used below is the empty string, which has no
  \<^verbatim>\<open>$\<close> pattern.)
\<close>

fun replace_str :: "string \<Rightarrow> string \<Rightarrow> string \<Rightarrow> string" where
  "replace_str [] pat rep = (if pat = [] then rep else [])"
| "replace_str (c # cs) pat rep =
     (if prefix pat (c # cs) then rep @ drop (length pat) (c # cs)
      else c # replace_str cs pat rep)"

text \<open>\<^verbatim>\<open>s.includes(pat)\<close>: \<^verbatim>\<open>pat\<close> occurs somewhere in \<^verbatim>\<open>s\<close>.\<close>

fun includes_str :: "string \<Rightarrow> string \<Rightarrow> bool" where
  "includes_str [] pat = (pat = [])"
| "includes_str (c # cs) pat = (prefix pat (c # cs) \<or> includes_str cs pat)"

text \<open>
  Truthiness of a value that is a string or \<^verbatim>\<open>undefined\<close> (a header field, the optional
  \<^verbatim>\<open>authToken\<close>): \<^verbatim>\<open>undefined\<close> and the empty string are falsy.
\<close>

fun truthy :: "string option \<Rightarrow> bool" where
  "truthy None = False"
| "truthy (Some s) = (s \<noteq> [])"

section \<open>The identity resolver\<close>

text \<open>
  \<^verbatim>\<open>jwt.verify(token, secret)\<close> of the jsonwebtoken package is not part of the
  repository: it is a parameter of the model. It returns the decoded payload (a string or
  an object) or throws.
\<close>

type_synonym jwt_verify = "string \<Rightarrow> string \<Rightarrow> error + jsvalue"

definition APP_SECRET :: string where
  "APP_SECRET = ''GraphQL-is-aw3some''"

definition getTokenPayload :: "jwt_verify \<Rightarrow> string \<Rightarrow> error + jsvalue" where
  "getTokenPayload verify token = verify token APP_SECRET"

text \<open>
  The destructuring \<^verbatim>\<open>const { userId } = payload\<close>: a TypeError on \<^verbatim>\<open>null\<close> and
  \<^verbatim>\<open>undefined\<close>, the property's value on an object that has it, \<^verbatim>\<open>undefined\<close> on an
  object without it and on every other value.
\<close>

fun destructure_userId :: "jsvalue \<Rightarrow> error + jsvalue" where
  "destructure_userId JUndefined =
     Inl (TypeError ''Cannot destructure property userId of undefined'')"
| "destructure_userId JNull =
     Inl (TypeError ''Cannot destructure property userId of null'')"
| "destructure_userId (JObj props) =
     Inr (case map_of props ''userId'' of None \<Rightarrow> JUndefined | Some v \<Rightarrow> v)"
| "destructure_userId _ = Inr JUndefined"

text \<open>
  An incoming request: the four fields the handler reads. Header names are lower case,
  a header that was not sent is \<^verbatim>\<open>undefined\<close>.
\<close>

record request =
  body :: jsvalue
  headers :: "string \<rightharpoonup> string"
  http_method :: string
  query :: jsvalue

text \<open>
  \<^verbatim>\<open>getUserId(req, authToken?)\<close>. \<^verbatim>\<open>req\<close> is a request or \<^verbatim>\<open>null\<close>, \<^verbatim>\<open>authToken\<close> a
  string or \<^verbatim>\<open>undefined\<close>. A truthy \<^verbatim>\<open>req\<close> whose authorization header is falsy falls
  through to the final \<^verbatim>\<open>throw\<close>: the \<^verbatim>\<open>else if\<close> belongs to \<^verbatim>\<open>if (req)\<close>.
\<close>

definition getUserId :: "jwt_verify \<Rightarrow> request option \<Rightarrow> string option \<Rightarrow> error + jsvalue" where
  "getUserId verify req authToken =
     (case req of
        Some r \<Rightarrow>
          (case headers r ''authorization'' of
             Some authHeader \<Rightarrow>
               if authHeader \<noteq> [] then
                 (let token = replace_str authHeader ''Bearer '' [] in
                  if token = [] then Inl (Error ''No token found'')
                  else (case getTokenPayload verify token of
                          Inl e \<Rightarrow> Inl e
                        | Inr payload \<Rightarrow> destructure_userId payload))
               else Inl (Error ''Not authenticated'')
           | None \<Rightarrow> Inl (Error ''Not authenticated''))
      | None \<Rightarrow>
          (case authToken of
             Some t \<Rightarrow>
               if t \<noteq> [] then
                 (case getTokenPayload verify t of
                    Inl e \<Rightarrow> Inl e
                  | Inr payload \<Rightarrow> destructure_userId payload)
               else Inl (Error ''Not authenticated'')
           | None \<Rightarrow> Inl (Error ''Not authenticated'')))"

section \<open>The HTTP transport\<close>

text \<open>The persistence client is an opaque handle, built once with its error format.\<close>

datatype prisma_client = PrismaClient string

definition prisma :: prisma_client where
  "prisma = PrismaClient ''minimal''"

text \<open>
  The execution context of the HTTP path, \<^verbatim>\<open>{ ...req, prisma, userId }\<close>: the request's
  own fields, the client and the identity.
\<close>

record exec_context =
  ctx_req :: "request option"
  ctx_prisma :: prisma_client
  ctx_userId :: jsvalue

text \<open>A call of the identity resolver, with its two arguments.\<close>

datatype call = GetUserId "request option" "string option"

text \<open>
  The context factory handed to \<^verbatim>\<open>processRequest\<close>:
  \<^verbatim>\<open>userId: req && req.headers.authorization ? getUserId(req) : null\<close>.
  It returns the context, or the error \<^verbatim>\<open>getUserId\<close> threw, together with the calls of
  \<^verbatim>\<open>getUserId\<close> it made.
\<close>

definition http_contextFactory :: "jwt_verify \<Rightarrow> request option \<Rightarrow> (error + exec_context) \<times> call list" where
  "http_contextFactory verify req =
     (if (case req of None \<Rightarrow> False | Some r \<Rightarrow> truthy (headers r ''authorization''))
      then (case getUserId verify req None of
              Inl e \<Rightarrow> (Inl e, [GetUserId req None])
            | Inr uid \<Rightarrow>
                (Inr \<lparr>ctx_req = req, ctx_prisma = prisma, ctx_userId = uid\<rparr>,
                 [GetUserId req None]))
      else (Inr \<lparr>ctx_req = req, ctx_prisma = prisma, ctx_userId = JNull\<rparr>, []))"

text \<open>
  What graphql-helix hands back and forth. \<^verbatim>\<open>processRequest\<close> returns an object whose
  \<^verbatim>\<open>type\<close> field the handler compares with two string literals; an incremental result
  carries \<^verbatim>\<open>hasNext\<close>.
\<close>

record gql_params =
  operationName :: "string option"
  gql_query :: "string option"
  variables :: jsvalue

record process_result =
  result_type :: string
  status :: nat
  result_headers :: "(string \<times> string) list"
  payload :: jsvalue

record exec_result =
  hasNext :: bool
  data :: jsvalue

text \<open>
  The functions of graphql-helix the handler calls are parameters of the model. The
  schema and the enveloped \<^verbatim>\<open>parse\<close>, \<^verbatim>\<open>validate\<close> and \<^verbatim>\<open>execute\<close> are fixed per
  process and stay inside \<open>processRequest\<close>; the context factory is passed as the
  thunk it is.
\<close>

record helix =
  shouldRenderGraphiQL :: "request \<Rightarrow> bool"
  renderGraphiQL :: "string \<Rightarrow> string"
  getGraphQLParameters :: "request \<Rightarrow> gql_params"
  processRequest ::
    "gql_params \<Rightarrow> request \<Rightarrow> (unit \<Rightarrow> (error + exec_context) \<times> call list) \<Rightarrow> process_result"

datatype graphql_error = GraphQLError string

datatype body = Html string | Json jsvalue | ErrorsBody "graphql_error list"

text \<open>
  What the handler does to the reply and to the engine's result, in order:
  \<^verbatim>\<open>res.type\<close>, \<^verbatim>\<open>res.send\<close>, \<^verbatim>\<open>res.setHeader\<close>, \<^verbatim>\<open>res.status\<close>, \<^verbatim>\<open>res.writeHead\<close>,
  \<^verbatim>\<open>req.on("close", ...)\<close>, \<^verbatim>\<open>res.write\<close>, \<^verbatim>\<open>res.end\<close>, \<^verbatim>\<open>result.unsubscribe()\<close>.
\<close>

datatype effect =
    ResType string
  | ResSend body
  | ResSetHeader string string
  | ResStatus nat
  | ResWriteHead nat "(string \<times> string) list"
  | ReqOnClose
  | ResWrite string
  | ResEnd
  | Unsubscribe

definition CRLF :: string where
  "CRLF = [CHR 0x0D, CHR 0x0A]"

text \<open>\<^verbatim>\<open>String(n)\<close> of a length: its decimal digits.\<close>

fun String_of_nat :: "nat \<Rightarrow> string" where
  "String_of_nat n =
     (if n < 10 then [''0123456789'' ! n]
      else String_of_nat (n div 10) @ [''0123456789'' ! (n mod 10)])"

text \<open>\<^verbatim>\<open>xs.join(sep)\<close>\<close>

fun join :: "string list \<Rightarrow> string \<Rightarrow> string" where
  "join [] sep = []"
| "join [x] sep = x"
| "join (x # y # ys) sep = x @ sep @ join (y # ys) sep"

text \<open>
  The callback given to \<^verbatim>\<open>result.subscribe\<close> frames one incremental result as a part.
  \<^verbatim>\<open>JSON.stringify\<close> is a parameter; the chunk is its UTF-8 bytes, and a string of the
  model is a list of bytes, so \<^verbatim>\<open>chunk.length\<close> is the length of the list.
\<close>

definition frame :: "(exec_result \<Rightarrow> string) \<Rightarrow> exec_result \<Rightarrow> string" where
  "frame stringify result =
     (let chunk = stringify result;
          data = ['''',
                  ''Content-Type: application/json; charset=utf-8'',
                  ''Content-Length: '' @ String_of_nat (length chunk),
                  '''',
                  chunk];
          data = (if hasNext result then data @ [''---''] else data)
      in join data CRLF)"

text \<open>
  The streaming branch is event driven. While the handler awaits \<^verbatim>\<open>result.subscribe\<close>
  three things can happen, in any order the event loop brings them: the engine's source
  delivers a result and \<^verbatim>\<open>subscribe\<close> invokes the callback (\<open>Next\<close>), the request
  emits \<^verbatim>\<open>close\<close> and the listener runs (\<open>Close\<close>), the promise of \<^verbatim>\<open>subscribe\<close>
  resolves and the handler continues after the \<^verbatim>\<open>await\<close> (\<open>Done\<close>). The callback has
  no test of its own: it writes whenever it is invoked. The listener stays registered
  after the handler has returned.
\<close>

datatype stream_event = Next exec_result | Close | Done

record stream_state =
  effects :: "effect list"
  awaiting :: bool

fun stream_step :: "(exec_result \<Rightarrow> string) \<Rightarrow> stream_state \<Rightarrow> stream_event \<Rightarrow> stream_state" where
  "stream_step stringify s (Next r) =
     s\<lparr>effects := effects s @ [ResWrite (frame stringify r)]\<rparr>"
| "stream_step stringify s Close =
     s\<lparr>effects := effects s @ [Unsubscribe]\<rparr>"
| "stream_step stringify s Done =
     (if awaiting s
      then s\<lparr>effects := effects s @ [ResWrite (CRLF @ ''-----'' @ CRLF), ResEnd],
             awaiting := False\<rparr>
      else s)"

definition stream_start :: stream_state where
  "stream_start =
     \<lparr>effects =
        [ResWriteHead 200
           [(''Connection'', ''keep-alive''),
            (''Content-Type'', ''multipart/mixed; boundary='' @ [CHR 0x22] @ ''-'' @ [CHR 0x22]),
            (''Transfer-Encoding'', ''chunked'')],
         ReqOnClose,
         ResWrite ''---''],
      awaiting = True\<rparr>"

text \<open>
  The route handler of \<^verbatim>\<open>/graphql\<close>. \<open>events\<close> is what happens on the connection
  and in the engine once the streaming branch has been entered; the other branches
  register no listener and await nothing, so they do not read it.
\<close>

definition handler ::
  "helix \<Rightarrow> (exec_result \<Rightarrow> string) \<Rightarrow> jwt_verify \<Rightarrow> request \<Rightarrow> stream_event list \<Rightarrow> effect list" where
  "handler lib stringify verify req events =
     (if shouldRenderGraphiQL lib req then
        [ResType ''text/html'',
         ResSend (Html (renderGraphiQL lib ''ws://localhost:4000/graphql''))]
      else
        (let params = getGraphQLParameters lib req;
             result = processRequest lib params req (\<lambda>_. http_contextFactory verify (Some req))
         in if result_type result = ''RESPONSE'' then
              map (\<lambda>(name, val). ResSetHeader name val) (result_headers result)
              @ [ResStatus (status result), ResSend (Json (payload result))]
            else if result_type result = ''MULTIPART_RESPONSE'' then
              effects (foldl (stream_step stringify) stream_start events)
            else
              [ResStatus 422,
               ResSend (ErrorsBody
                 [GraphQLError ''Subscriptions should be sent over WebSocket.''])]))"

text \<open>The results the engine's source delivers in a run of events, in order.\<close>

fun delivered :: "stream_event list \<Rightarrow> exec_result list" where
  "delivered [] = []"
| "delivered (Next r # evs) = r # delivered evs"
| "delivered (e # evs) = delivered evs"

text \<open>What the handler does after the first \<^verbatim>\<open>unsubscribe\<close>.\<close>

definition after_unsubscribe :: "effect list \<Rightarrow> effect list" where
  "after_unsubscribe es = tl (dropWhile (\<lambda>e. e \<noteq> Unsubscribe) es)"

section \<open>The WebSocket transport\<close>

text \<open>
  The enveloped functions (\<^verbatim>\<open>getEnveloped()\<close>) are parameters: the schema, \<^verbatim>\<open>parse\<close>,
  which throws on a syntax error, \<^verbatim>\<open>validate\<close>, which returns the list of validation
  errors, and \<^verbatim>\<open>contextFactory\<close>.
\<close>

record ws_context =
  connectionParams :: jsvalue
  extra_socket :: string
  extra_request :: request

record subscribe_payload =
  sub_operationName :: "string option"
  sub_query :: string
  sub_variables :: jsvalue

record ('schema, 'doc, 'ctx) enveloped =
  env_schema :: 'schema
  parse :: "string \<Rightarrow> error + 'doc"
  validate :: "'schema \<Rightarrow> 'doc \<Rightarrow> graphql_error list"
  contextFactory :: "ws_context \<Rightarrow> error + 'ctx"

record ('schema, 'doc, 'ctx) execution_args =
  schema :: 'schema
  args_operationName :: "string option"
  document :: 'doc
  variableValues :: jsvalue
  contextValue :: 'ctx

text \<open>
  What \<^verbatim>\<open>onSubscribe\<close> returns to graphql-ws: the arguments to execute the operation
  with, or an array of errors, which the server sends as the operation's result in place
  of executing it.
\<close>

datatype ('schema, 'doc, 'ctx) subscribe_outcome =
    ExecutionArgs "('schema, 'doc, 'ctx) execution_args"
  | OperationErrors "graphql_error list"

text \<open>
  \<^verbatim>\<open>onSubscribe(ctx, msg)\<close>. The object literal is evaluated field by field, so
  \<^verbatim>\<open>parse\<close> runs first and the awaited \<^verbatim>\<open>contextFactory\<close> second; either can throw
  before \<^verbatim>\<open>validate\<close> is reached.
\<close>

definition onSubscribe ::
  "('schema, 'doc, 'ctx) enveloped \<Rightarrow> ws_context \<Rightarrow> subscribe_payload
   \<Rightarrow> error + ('schema, 'doc, 'ctx) subscribe_outcome" where
  "onSubscribe env ctx msg_payload =
     (case parse env (sub_query msg_payload) of
        Inl e \<Rightarrow> Inl e
      | Inr doc \<Rightarrow>
          (case contextFactory env ctx of
             Inl e \<Rightarrow> Inl e
           | Inr cv \<Rightarrow>
               (let args = \<lparr>schema = env_schema env,
                            args_operationName = sub_operationName msg_payload,
                            document = doc,
                            variableValues = sub_variables msg_payload,
                            contextValue = cv\<rparr>;
                    errors = validate env (schema args) (document args)
                in if length errors \<noteq> 0 then Inr (OperationErrors errors)
                   else Inr (ExecutionArgs args))))"

section \<open>Stand-ins for the libraries\<close>

text \<open>
  Two stand-ins for \<^verbatim>\<open>jwt.verify\<close>, used to run the resolver on concrete requests.
  \<open>fixture_verify\<close> accepts, under the shared secret, one token whose payload has the
  subject 7 and one whose payload has no subject. \<open>echo_verify\<close> accepts every token
  and reports the token it was handed as the subject, which makes the argument of the
  verification visible in the result.
\<close>

definition fixture_verify :: jwt_verify where
  "fixture_verify token secret =
     (if secret \<noteq> APP_SECRET then Inl (JsonWebTokenError ''invalid signature'')
      else if token = ''h.subject7.s'' then Inr (JObj [(''userId'', JNum 7), (''iat'', JNum 1600000000)])
      else if token = ''h.nosubject.s'' then Inr (JObj [(''iat'', JNum 1600000000)])
      else Inl (JsonWebTokenError ''jwt malformed''))"

definition echo_verify :: jwt_verify where
  "echo_verify token secret = Inr (JObj [(''userId'', JStr token)])"

definition request_with :: "string option \<Rightarrow> request" where
  "request_with auth =
     \<lparr>body = JNull,
      headers = (\<lambda>k. if k = ''authorization'' then auth else None),
      http_method = ''POST'',
      query = JObj []\<rparr>"

text \<open>
  A stand-in for graphql-helix whose \<open>processRequest\<close> returns a given result, three
  results, a stand-in for \<^verbatim>\<open>JSON.stringify\<close> and one for the enveloped functions.
\<close>

definition fixture_helix :: "process_result \<Rightarrow> helix" where
  "fixture_helix result =
     \<lparr>shouldRenderGraphiQL =
        (\<lambda>r. http_method r = ''GET'' \<and>
              (case headers r ''accept'' of
                 None \<Rightarrow> False
               | Some a \<Rightarrow> includes_str a ''text/html'')),
      renderGraphiQL = (\<lambda>endpoint. ''<html>'' @ endpoint @ ''</html>''),
      getGraphQLParameters =
        (\<lambda>r. \<lparr>operationName = None, gql_query = None, variables = JNull\<rparr>),
      processRequest = (\<lambda>params r factory. result)\<rparr>"

definition push_result :: process_result where
  "push_result =
     \<lparr>result_type = ''PUSH'', status = 0, result_headers = [], payload = JUndefined\<rparr>"

definition multipart_result :: process_result where
  "multipart_result =
     \<lparr>result_type = ''MULTIPART_RESPONSE'', status = 0, result_headers = [],
      payload = JUndefined\<rparr>"

definition fixture_stringify :: "exec_result \<Rightarrow> string" where
  "fixture_stringify r = (if hasNext r then ''{hasNext:true}'' else ''{hasNext:false}'')"

definition first_chunk :: exec_result where
  "first_chunk = \<lparr>hasNext = True, data = JObj [(''feed'', JNum 1)]\<rparr>"

definition second_chunk :: exec_result where
  "second_chunk = \<lparr>hasNext = False, data = JObj [(''feed'', JNum 2)]\<rparr>"

definition fixture_enveloped :: "(string, string, jsvalue) enveloped" where
  "fixture_enveloped =
     \<lparr>env_schema = ''type Query { feed: Int }'',
      parse = (\<lambda>q. if q = [] then Inl (SyntaxError ''Unexpected <EOF>'') else Inr q),
      validate =
        (\<lambda>s d. if d = ''{ feed }'' then [] else [GraphQLError ''Cannot query field'']),
      contextFactory = (\<lambda>c. Inr (connectionParams c))\<rparr>"

definition fixture_ws_context :: ws_context where
  "fixture_ws_context =
     \<lparr>connectionParams = JObj [], extra_socket = ''socket-1'',
      extra_request = request_with None\<rparr>"

section \<open>Strings\<close>

lemma replace_str_prefix: "pat \<noteq> [] \<Longrightarrow> replace_str (pat @ s) pat rep = rep @ s"
  by (cases pat) simp_all

lemma replace_str_absent: "\<not> includes_str s pat \<Longrightarrow> replace_str s pat rep = s"
  by (induction s) auto

lemma replace_str_empty: "replace_str s pat [] = [] \<Longrightarrow> s = [] \<or> s = pat"
  by (cases s) (auto simp: prefix_def split: if_splits)

section \<open>The identity resolver: resolving a signed token\<close>

text \<open>
  Claim C1. A token that verifies under the shared secret, with a payload that carries the
  subject \<open>S\<close>, resolves to exactly \<open>S\<close>, through the header \<^verbatim>\<open>Bearer <token>\<close> and
  through the raw-token form alike. (A signed token is never the empty string.) The
  resolver reads its arguments and the secret and nothing else, and writes nothing, so it
  is a function: resolving the same token again gives the same \<open>S\<close>.
\<close>

theorem getUserId_signed_token:
  assumes "headers r ''authorization'' = Some (''Bearer '' @ token)"
    and "token \<noteq> []"
    and "verify token APP_SECRET = Inr (JObj props)"
    and "map_of props ''userId'' = Some S"
  shows "getUserId verify (Some r) authToken = Inr S
       \<and> getUserId verify None (Some token) = Inr S"
  using assms replace_str_prefix [of "''Bearer ''" token "[]"]
  by (simp add: getUserId_def getTokenPayload_def)

theorem getUserId_signed_token_witness:
  "headers (request_with (Some ''Bearer h.subject7.s'')) ''authorization''
     = Some (''Bearer '' @ ''h.subject7.s'')
   \<and> fixture_verify ''h.subject7.s'' APP_SECRET
     = Inr (JObj [(''userId'', JNum 7), (''iat'', JNum 1600000000)])
   \<and> getUserId fixture_verify (Some (request_with (Some ''Bearer h.subject7.s''))) None
     = Inr (JNum 7)
   \<and> getUserId fixture_verify None (Some ''h.subject7.s'') = Inr (JNum 7)"
  using getUserId_signed_token [of "request_with (Some ''Bearer h.subject7.s'')"
      "''h.subject7.s''" fixture_verify "[(''userId'', JNum 7), (''iat'', JNum 1600000000)]"
      "JNum 7" None]
  by (simp add: request_with_def fixture_verify_def)

section \<open>The HTTP context factory\<close>

text \<open>
  Claim C2. For a request without an authorization header the context factory of the
  HTTP path returns a context (it does not throw) whose identity is \<^verbatim>\<open>null\<close>, and it
  makes no call of \<^verbatim>\<open>getUserId\<close>.
\<close>

theorem http_contextFactory_no_authorization:
  assumes "headers r ''authorization'' = None"
  shows "http_contextFactory verify (Some r)
         = (Inr \<lparr>ctx_req = Some r, ctx_prisma = prisma, ctx_userId = JNull\<rparr>, [])"
  using assms by (simp add: http_contextFactory_def)

theorem http_contextFactory_no_authorization_witness:
  "headers (request_with None) ''authorization'' = None
   \<and> http_contextFactory fixture_verify (Some (request_with None))
     = (Inr \<lparr>ctx_req = Some (request_with None), ctx_prisma = prisma, ctx_userId = JNull\<rparr>,
        [])"
  using http_contextFactory_no_authorization [of "request_with None" fixture_verify]
  by (simp add: request_with_def)

text \<open>
  Claim C9. The guard tests the header's truthiness: an authorization header that is
  present and empty gives the \<^verbatim>\<open>null\<close> identity as well, without a call of
  \<^verbatim>\<open>getUserId\<close>, so no error of the resolver arises from it on the HTTP path.
\<close>

theorem http_contextFactory_empty_authorization:
  assumes "headers r ''authorization'' = Some []"
  shows "http_contextFactory verify (Some r)
         = (Inr \<lparr>ctx_req = Some r, ctx_prisma = prisma, ctx_userId = JNull\<rparr>, [])"
  using assms by (simp add: http_contextFactory_def)

theorem http_contextFactory_empty_authorization_witness:
  "headers (request_with (Some [])) ''authorization'' = Some []
   \<and> http_contextFactory fixture_verify (Some (request_with (Some [])))
     = (Inr \<lparr>ctx_req = Some (request_with (Some [])), ctx_prisma = prisma,
            ctx_userId = JNull\<rparr>,
        [])"
  using http_contextFactory_empty_authorization [of "request_with (Some [])" fixture_verify]
  by (simp add: request_with_def)

section \<open>The identity resolver: failures and the scheme prefix\<close>

text \<open>
  Claim C3, as the code has it. A non-empty authorization value that is empty once
  \<^verbatim>\<open>Bearer \<close> has been replaced is exactly \<^verbatim>\<open>Bearer \<close>, and resolving it fails with
  \<^verbatim>\<open>No token found\<close>. The empty authorization value is empty after the replacement
  too, but it does not pass the test \<^verbatim>\<open>if (authHeader)\<close>: it fails with
  \<^verbatim>\<open>Not authenticated\<close>.
\<close>

theorem getUserId_empty_token:
  assumes "headers r ''authorization'' = Some h"
    and "h \<noteq> []"
    and "replace_str h ''Bearer '' [] = []"
  shows "h = ''Bearer ''
       \<and> getUserId verify (Some r) authToken = Inl (Error ''No token found'')"
  using assms replace_str_empty [of h "''Bearer ''"]
  by (simp add: getUserId_def)

theorem getUserId_empty_token_witness:
  "headers (request_with (Some ''Bearer '')) ''authorization'' = Some ''Bearer ''
   \<and> replace_str ''Bearer '' ''Bearer '' [] = []
   \<and> getUserId fixture_verify (Some (request_with (Some ''Bearer ''))) None
     = Inl (Error ''No token found'')"
  using getUserId_empty_token [of "request_with (Some ''Bearer '')" "''Bearer ''"
      fixture_verify None]
  by (simp add: request_with_def)

theorem getUserId_empty_header_counterexample:
  "headers (request_with (Some [])) ''authorization'' = Some []
   \<and> replace_str [] ''Bearer '' [] = []
   \<and> getUserId fixture_verify (Some (request_with (Some []))) None
     = Inl (Error ''Not authenticated'')"
  by (simp add: getUserId_def request_with_def)

text \<open>
  Claim C4, as the code has it. The resolver does not test the subject it destructures:
  for a token that verifies with an object payload without the field \<^verbatim>\<open>userId\<close> it
  returns, and what it returns is \<^verbatim>\<open>undefined\<close>. No error is raised for the missing
  field.
\<close>

theorem getUserId_missing_subject:
  assumes "headers r ''authorization'' = Some (''Bearer '' @ token)"
    and "token \<noteq> []"
    and "verify token APP_SECRET = Inr (JObj props)"
    and "map_of props ''userId'' = None"
  shows "getUserId verify (Some r) authToken = Inr JUndefined
       \<and> getUserId verify None (Some token) = Inr JUndefined"
  using assms replace_str_prefix [of "''Bearer ''" token "[]"]
  by (simp add: getUserId_def getTokenPayload_def)

theorem getUserId_missing_subject_witness:
  "headers (request_with (Some ''Bearer h.nosubject.s'')) ''authorization''
     = Some (''Bearer '' @ ''h.nosubject.s'')
   \<and> fixture_verify ''h.nosubject.s'' APP_SECRET = Inr (JObj [(''iat'', JNum 1600000000)])
   \<and> getUserId fixture_verify None (Some ''h.nosubject.s'') = Inr JUndefined"
  using getUserId_missing_subject [of "request_with (Some ''Bearer h.nosubject.s'')"
      "''h.nosubject.s''" fixture_verify "[(''iat'', JNum 1600000000)]" None]
  by (simp add: request_with_def fixture_verify_def)

theorem getUserId_missing_subject_counterexample:
  "fixture_verify ''h.nosubject.s'' APP_SECRET = Inr (JObj [(''iat'', JNum 1600000000)])
   \<and> map_of [(''iat'', JNum 1600000000)] ''userId'' = None
   \<and> getUserId fixture_verify (Some (request_with (Some ''Bearer h.nosubject.s''))) None
     = Inr JUndefined"
  by (simp add: getUserId_def request_with_def fixture_verify_def getTokenPayload_def)

text \<open>
  Claim C5, as the code has it. \<^verbatim>\<open>replace\<close> removes the first \<^verbatim>\<open>Bearer \<close> wherever it
  stands, not only at the start. For a non-empty authorization value in which
  \<^verbatim>\<open>Bearer \<close> does not occur at all, the token handed to the verification is the whole
  value: whatever \<^verbatim>\<open>jwt.verify\<close> is, the resolver's result is the result of verifying the
  whole value under the shared secret and destructuring the payload.
\<close>

theorem getUserId_no_scheme:
  assumes "headers r ''authorization'' = Some h"
    and "h \<noteq> []"
    and "\<not> includes_str h ''Bearer ''"
  shows "getUserId verify (Some r) authToken
         = (case verify h APP_SECRET of Inl e \<Rightarrow> Inl e | Inr p \<Rightarrow> destructure_userId p)"
  using assms replace_str_absent [of h "''Bearer ''" "[]"]
  by (simp add: getUserId_def getTokenPayload_def)

theorem getUserId_no_scheme_witness:
  "headers (request_with (Some ''Token abc'')) ''authorization'' = Some ''Token abc''
   \<and> \<not> includes_str ''Token abc'' ''Bearer ''
   \<and> getUserId echo_verify (Some (request_with (Some ''Token abc''))) None
     = Inr (JStr ''Token abc'')"
  using getUserId_no_scheme [of "request_with (Some ''Token abc'')" "''Token abc''"
      echo_verify None]
  by (simp add: request_with_def echo_verify_def)

theorem getUserId_inner_scheme_counterexample:
  "headers (request_with (Some ''Token Bearer abc'')) ''authorization''
     = Some ''Token Bearer abc''
   \<and> \<not> prefix ''Bearer '' ''Token Bearer abc''
   \<and> getUserId echo_verify (Some (request_with (Some ''Token Bearer abc''))) None
     = Inr (JStr ''Token abc'')"
  by (simp add: getUserId_def request_with_def echo_verify_def getTokenPayload_def)

text \<open>
  Claim C10. With a request at hand the resolver never reads the raw token: its result
  is the one it gives without a raw token. In particular a request without an
  authorization header fails with \<^verbatim>\<open>Not authenticated\<close>, whatever raw token comes with
  it.
\<close>

theorem getUserId_request_precedence:
  "getUserId verify (Some r) authToken = getUserId verify (Some r) None
   \<and> (headers r ''authorization'' = None
      \<longrightarrow> getUserId verify (Some r) authToken = Inl (Error ''Not authenticated''))"
  by (simp add: getUserId_def)

theorem getUserId_request_precedence_witness:
  "headers (request_with None) ''authorization'' = None
   \<and> getUserId fixture_verify None (Some ''h.subject7.s'') = Inr (JNum 7)
   \<and> getUserId fixture_verify (Some (request_with None)) (Some ''h.subject7.s'')
     = Inl (Error ''Not authenticated'')"
  using getUserId_request_precedence [of fixture_verify "request_with None"
      "Some ''h.subject7.s''"]
  by (simp add: request_with_def getUserId_def getTokenPayload_def fixture_verify_def)

section \<open>The route handler\<close>

text \<open>
  Claim C6. On the HTTP path (the request is not one for the documentation page), when
  the result of \<open>processRequest\<close> is neither a \<^verbatim>\<open>RESPONSE\<close> nor a
  \<^verbatim>\<open>MULTIPART_RESPONSE\<close>, the handler sets the status 422 and sends a body with exactly
  one error, whose message is \<^verbatim>\<open>Subscriptions should be sent over WebSocket.\<close>; it does
  nothing else.
\<close>

theorem handler_protocol_mismatch:
  assumes "\<not> shouldRenderGraphiQL lib req"
    and "result_type (processRequest lib (getGraphQLParameters lib req) req
           (\<lambda>_. http_contextFactory verify (Some req))) \<noteq> ''RESPONSE''"
    and "result_type (processRequest lib (getGraphQLParameters lib req) req
           (\<lambda>_. http_contextFactory verify (Some req))) \<noteq> ''MULTIPART_RESPONSE''"
  shows "handler lib stringify verify req events
         = [ResStatus 422,
            ResSend (ErrorsBody
              [GraphQLError ''Subscriptions should be sent over WebSocket.''])]"
  using assms by (simp add: handler_def Let_def)

theorem handler_protocol_mismatch_witness:
  "\<not> shouldRenderGraphiQL (fixture_helix push_result) (request_with None)
   \<and> result_type push_result \<noteq> ''RESPONSE''
   \<and> result_type push_result \<noteq> ''MULTIPART_RESPONSE''
   \<and> handler (fixture_helix push_result) fixture_stringify fixture_verify
        (request_with None) []
     = [ResStatus 422,
        ResSend (ErrorsBody
          [GraphQLError ''Subscriptions should be sent over WebSocket.''])]"
  using handler_protocol_mismatch [of "fixture_helix push_result" "request_with None"
      fixture_verify fixture_stringify "[]"]
  by (simp add: fixture_helix_def push_result_def request_with_def)

section \<open>The streaming branch\<close>

text \<open>
  Each \<^verbatim>\<open>close\<close> of the request is one \<^verbatim>\<open>unsubscribe\<close>, and nothing else is.
\<close>

lemma stream_count_unsubscribe:
  "count_list (effects (foldl (stream_step f) s evs)) Unsubscribe
   = count_list (effects s) Unsubscribe + count_list evs Close"
proof (induction evs arbitrary: s)
  case Nil
  show ?case by simp
next
  case (Cons e evs)
  show ?case by (cases e) (simp_all add: Cons.IH)
qed

text \<open>The handler stays at its \<^verbatim>\<open>await\<close> until the promise resolves.\<close>

lemma stream_awaiting_kept:
  "Done \<notin> set evs \<Longrightarrow> awaiting (foldl (stream_step f) s evs) = awaiting s"
proof (induction evs arbitrary: s)
  case Nil
  show ?case by simp
next
  case (Cons e evs)
  then show ?case by (cases e) simp_all
qed

text \<open>Effects are only ever appended, and without a \<^verbatim>\<open>close\<close> none is an unsubscribe.\<close>

lemma stream_effects_extend:
  "\<exists>es. effects (foldl (stream_step f) s evs) = effects s @ es
     \<and> (Close \<notin> set evs \<longrightarrow> Unsubscribe \<notin> set es)"
proof (induction evs arbitrary: s)
  case Nil
  show ?case by simp
next
  case (Cons e evs)
  obtain es where es:
    "effects (foldl (stream_step f) (stream_step f s e) evs)
       = effects (stream_step f s e) @ es"
    "Close \<notin> set evs \<longrightarrow> Unsubscribe \<notin> set es"
    using Cons.IH by blast
  show ?case
  proof (cases e)
    case (Next r)
    with es show ?thesis by simp
  next
    case Close
    with es show ?thesis by simp
  next
    case Done
    with es show ?thesis by simp
  qed
qed

text \<open>
  Once the promise has resolved only results can still have an effect, and while it is
  pending the first \<open>Done\<close> is the end of the \<^verbatim>\<open>await\<close>. Either way every
  result that is delivered is framed and written.
\<close>

lemma stream_resolved_tail:
  "\<not> awaiting s \<Longrightarrow> Close \<notin> set evs \<Longrightarrow>
   effects (foldl (stream_step f) s evs)
   = effects s @ map (\<lambda>r. ResWrite (frame f r)) (delivered evs)"
proof (induction evs arbitrary: s)
  case Nil
  show ?case by simp
next
  case (Cons e evs)
  show ?case
  proof (cases e)
    case (Next r)
    with Cons.prems Cons.IH [of "stream_step f s (Next r)"] show ?thesis by simp
  next
    case Close
    with Cons.prems show ?thesis by simp
  next
    case Done
    with Cons.prems Cons.IH [of s] show ?thesis by simp
  qed
qed

lemma stream_pending_tail:
  "awaiting s \<Longrightarrow> Close \<notin> set evs \<Longrightarrow>
   effects (foldl (stream_step f) s evs)
   = effects s
     @ map (\<lambda>r. ResWrite (frame f r)) (delivered (takeWhile (\<lambda>e. e \<noteq> Done) evs))
     @ (if Done \<in> set evs
        then [ResWrite (CRLF @ ''-----'' @ CRLF), ResEnd]
             @ map (\<lambda>r. ResWrite (frame f r)) (delivered (dropWhile (\<lambda>e. e \<noteq> Done) evs))
        else [])"
proof (induction evs arbitrary: s)
  case Nil
  show ?case by simp
next
  case (Cons e evs)
  show ?case
  proof (cases e)
    case (Next r)
    with Cons.prems Cons.IH [of "stream_step f s (Next r)"] show ?thesis by simp
  next
    case Close
    with Cons.prems show ?thesis by simp
  next
    case Done
    have "\<not> awaiting (stream_step f s Done)" by simp
    from stream_resolved_tail [OF this, of evs f] Cons.prems Done show ?thesis by simp
  qed
qed

lemma stream_disconnect:
  assumes "Close \<notin> set pre" and "Done \<notin> set pre" and "Close \<notin> set post"
  shows "count_list (effects (foldl (stream_step f) stream_start (pre @ Close # post)))
           Unsubscribe = 1"
    and "after_unsubscribe (effects (foldl (stream_step f) stream_start (pre @ Close # post)))
         = map (\<lambda>r. ResWrite (frame f r)) (delivered (takeWhile (\<lambda>e. e \<noteq> Done) post))
           @ (if Done \<in> set post
              then [ResWrite (CRLF @ ''-----'' @ CRLF), ResEnd]
                   @ map (\<lambda>r. ResWrite (frame f r))
                       (delivered (dropWhile (\<lambda>e. e \<noteq> Done) post))
              else [])"
proof -
  let ?mid = "foldl (stream_step f) stream_start pre"
  let ?tail = "map (\<lambda>r. ResWrite (frame f r)) (delivered (takeWhile (\<lambda>e. e \<noteq> Done) post))
           @ (if Done \<in> set post
              then [ResWrite (CRLF @ ''-----'' @ CRLF), ResEnd]
                   @ map (\<lambda>r. ResWrite (frame f r))
                       (delivered (dropWhile (\<lambda>e. e \<noteq> Done) post))
              else [])"
  obtain es where es: "effects ?mid = effects stream_start @ es" "Unsubscribe \<notin> set es"
    using stream_effects_extend [of f stream_start pre] assms(1) by blast
  have aw: "awaiting (stream_step f ?mid Close)"
    using stream_awaiting_kept [OF assms(2), of f stream_start]
    by (simp add: stream_start_def)
  have "effects (foldl (stream_step f) (stream_step f ?mid Close) post)
      = effects (stream_step f ?mid Close) @ ?tail"
    by (rule stream_pending_tail [OF aw assms(3)])
  then have whole: "effects (foldl (stream_step f) stream_start (pre @ Close # post))
      = (effects stream_start @ es) @ Unsubscribe # ?tail"
    using es(1) by simp
  have before: "Unsubscribe \<notin> set (effects stream_start @ es)"
    using es(2) by (simp add: stream_start_def)
  show "count_list (effects (foldl (stream_step f) stream_start (pre @ Close # post)))
          Unsubscribe = 1"
    using assms(1,3) by (simp add: stream_count_unsubscribe stream_start_def)
  have dropped:
    "dropWhile (\<lambda>e. e \<noteq> Unsubscribe) ((effects stream_start @ es) @ Unsubscribe # ?tail)
     = Unsubscribe # ?tail"
    using before by (subst dropWhile_append2) auto
  show "after_unsubscribe (effects (foldl (stream_step f) stream_start (pre @ Close # post)))
        = ?tail"
    unfolding after_unsubscribe_def whole dropped by (rule list.sel(3))
qed

lemma handler_multipart:
  assumes "\<not> shouldRenderGraphiQL lib req"
    and "result_type (processRequest lib (getGraphQLParameters lib req) req
           (\<lambda>_. http_contextFactory verify (Some req))) = ''MULTIPART_RESPONSE''"
  shows "handler lib stringify verify req events
         = effects (foldl (stream_step stringify) stream_start events)"
  using assms by (simp add: handler_def Let_def)

text \<open>
  Claim C7, as the code has it. The client disconnects once, while the handler awaits the
  subscription (\<open>pre\<close> is what happened before, \<open>post\<close> what happens after). The
  listener calls \<^verbatim>\<open>unsubscribe\<close>, and that is the only call of it. The callback has
  no test for a closed connection: after the disconnect the handler writes one part for
  each result the engine's source still delivers, in the order of delivery, and nothing
  else until the promise of \<^verbatim>\<open>subscribe\<close> resolves; then it writes the closing boundary
  and ends the response (a result delivered later still would be written as well). So
  no further part is written exactly when the source delivers no further result.
\<close>

theorem handler_stream_disconnect:
  assumes "\<not> shouldRenderGraphiQL lib req"
    and "result_type (processRequest lib (getGraphQLParameters lib req) req
           (\<lambda>_. http_contextFactory verify (Some req))) = ''MULTIPART_RESPONSE''"
    and "Close \<notin> set pre" and "Done \<notin> set pre" and "Close \<notin> set post"
  shows "count_list (handler lib stringify verify req (pre @ Close # post)) Unsubscribe = 1
       \<and> after_unsubscribe (handler lib stringify verify req (pre @ Close # post))
         = map (\<lambda>r. ResWrite (frame stringify r))
             (delivered (takeWhile (\<lambda>e. e \<noteq> Done) post))
           @ (if Done \<in> set post
              then [ResWrite (CRLF @ ''-----'' @ CRLF), ResEnd]
                   @ map (\<lambda>r. ResWrite (frame stringify r))
                       (delivered (dropWhile (\<lambda>e. e \<noteq> Done) post))
              else [])"
  using stream_disconnect [OF assms(3-5), of stringify]
  by (simp only: handler_multipart [OF assms(1,2)])

theorem handler_stream_disconnect_witness:
  "\<not> shouldRenderGraphiQL (fixture_helix multipart_result) (request_with None)
   \<and> result_type multipart_result = ''MULTIPART_RESPONSE''
   \<and> Close \<notin> set [Next first_chunk] \<and> Done \<notin> set [Next first_chunk]
   \<and> Close \<notin> set [Done]
   \<and> count_list (handler (fixture_helix multipart_result) fixture_stringify fixture_verify
        (request_with None) ([Next first_chunk] @ Close # [Done])) Unsubscribe = 1
   \<and> after_unsubscribe (handler (fixture_helix multipart_result) fixture_stringify
        fixture_verify (request_with None) ([Next first_chunk] @ Close # [Done]))
     = [ResWrite (CRLF @ ''-----'' @ CRLF), ResEnd]"
  using handler_stream_disconnect [of "fixture_helix multipart_result" "request_with None"
      fixture_verify "[Next first_chunk]" "[Done]" fixture_stringify]
  by (simp add: fixture_helix_def multipart_result_def request_with_def)

theorem handler_stream_disconnect_counterexample:
  "handler (fixture_helix multipart_result) fixture_stringify fixture_verify
     (request_with None) [Next first_chunk, Close, Next second_chunk, Done]
   = [ResWriteHead 200
        [(''Connection'', ''keep-alive''),
         (''Content-Type'', ''multipart/mixed; boundary='' @ [CHR 0x22] @ ''-'' @ [CHR 0x22]),
         (''Transfer-Encoding'', ''chunked'')],
      ReqOnClose,
      ResWrite ''---'',
      ResWrite (frame fixture_stringify first_chunk),
      Unsubscribe,
      ResWrite (frame fixture_stringify second_chunk),
      ResWrite (CRLF @ ''-----'' @ CRLF),
      ResEnd]
   \<and> frame fixture_stringify second_chunk
     = CRLF @ ''Content-Type: application/json; charset=utf-8''
       @ CRLF @ ''Content-Length: 15''
       @ CRLF @ CRLF @ ''{hasNext:false}''"
  by (simp add: handler_def fixture_helix_def multipart_result_def request_with_def
      stream_start_def frame_def fixture_stringify_def second_chunk_def first_chunk_def)

section \<open>The subscribe hook\<close>

text \<open>
  Claim C8. When the query of a subscribe message parses, the context factory returns,
  and validating the parsed document against the schema gives a non-empty list of
  errors, \<^verbatim>\<open>onSubscribe\<close> returns that list and not the execution arguments: graphql-ws
  sends the errors as the operation's result and does not execute.
\<close>

theorem onSubscribe_validation_errors:
  assumes "parse env (sub_query msg_payload) = Inr doc"
    and "contextFactory env ctx = Inr cv"
    and "validate env (env_schema env) doc \<noteq> []"
  shows "onSubscribe env ctx msg_payload
         = Inr (OperationErrors (validate env (env_schema env) doc))"
  using assms by (simp add: onSubscribe_def Let_def)

theorem onSubscribe_validation_errors_witness:
  "parse fixture_enveloped
     (sub_query \<lparr>sub_operationName = None, sub_query = ''{ nope }'', sub_variables = JNull\<rparr>)
     = Inr ''{ nope }''
   \<and> contextFactory fixture_enveloped fixture_ws_context = Inr (JObj [])
   \<and> validate fixture_enveloped (env_schema fixture_enveloped) ''{ nope }''
     = [GraphQLError ''Cannot query field'']
   \<and> onSubscribe fixture_enveloped fixture_ws_context
        \<lparr>sub_operationName = None, sub_query = ''{ nope }'', sub_variables = JNull\<rparr>
     = Inr (OperationErrors [GraphQLError ''Cannot query field''])"
  using onSubscribe_validation_errors [of fixture_enveloped
      "\<lparr>sub_operationName = None, sub_query = ''{ nope }'', sub_variables = JNull\<rparr>"
      "''{ nope }''" fixture_ws_context "JObj []"]
  by (simp add: fixture_enveloped_def fixture_ws_context_def)

end
